theory Spec2Isabelle
  imports Complex_Main "HOL-Library.Word"
begin

section \<open>JavaScript values used by the weather application\<close>

text \<open>
  A JavaScript string is a sequence of UTF-16 code units and \<open>.length\<close> counts code
  units, so a string is a list of 16-bit words. \<open>lit\<close> embeds an ASCII literal of the
  source; the degree sign of the temperature labels is the single code unit U+00B0.
\<close>

type_synonym jsstring = "16 word list"

definition lit :: "string \<Rightarrow> jsstring" where
  "lit s = map (\<lambda>c. of_nat (of_char c)) s"

definition degree :: "16 word" where
  "degree = 0xB0"

text \<open>
  A JavaScript number is \<open>NaN\<close>, one of the two infinities, or a finite value,
  taken as a rational. \<open>Math.round\<close> of a finite number is the nearest integer, a
  tie going up, and is exact; of \<open>NaN\<close> or an infinity it is that same value.
\<close>

datatype jsnumber = NaN | PosInfinity | NegInfinity | Finite rat

definition Math_round :: "rat \<Rightarrow> int" where
  "Math_round x = \<lfloor>x + 1 / 2\<rfloor>"

fun decimal :: "nat \<Rightarrow> jsstring" where
  "decimal n =
     (if n < 10 then [0x30 + of_nat n]
      else decimal (n div 10) @ [0x30 + of_nat (n mod 10)])"

declare decimal.simps [simp del]

text \<open>
  The decimal numeral of an integer, with a leading minus sign when negative. A
  template literal prints an integer-valued number this way as long as its magnitude
  is at most \<open>2^53\<close>: every such integer is a number of its own, so no shorter
  digit string reads back as it.
\<close>

definition numberToString :: "int \<Rightarrow> jsstring" where
  "numberToString i = (if i < 0 then lit ''-'' @ decimal (nat (- i)) else decimal (nat i))"

text \<open>Reading a string of decimal digits back, most significant digit first.\<close>

definition digitsValue :: "jsstring \<Rightarrow> nat" where
  "digitsValue s = foldl (\<lambda>acc d. 10 * acc + unat (d - 0x30)) 0 s"

section \<open>\<open>utils/temperatureUtils.ts\<close>: \<open>formatTemperature\<close>\<close>

text \<open>
  \<open>`${Math.round(temp)}`\<close>. Above \<open>2^53\<close> JavaScript prints the shortest digits
  that read back as the same number, padded with zeros, and from \<open>10^21\<close> on it
  uses exponent notation; that rendering of large integers is not modelled and is the
  parameter \<open>large\<close>.
\<close>

definition roundedToString :: "(int \<Rightarrow> jsstring) \<Rightarrow> jsnumber \<Rightarrow> jsstring" where
  "roundedToString large x =
     (case x of
        NaN \<Rightarrow> lit ''NaN''
      | PosInfinity \<Rightarrow> lit ''Infinity''
      | NegInfinity \<Rightarrow> lit ''-Infinity''
      | Finite t \<Rightarrow>
          if \<bar>Math_round t\<bar> \<le> 2 ^ 53 then numberToString (Math_round t)
          else large (Math_round t))"

text \<open>
  Number-to-string on large integers at the one such value the runs evaluated below
  print: \<open>10^21\<close>, which JavaScript prints as \<open>1e+21\<close>.
\<close>

definition largeAt21 :: "int \<Rightarrow> jsstring" where
  "largeAt21 n = (if n = 10 ^ 21 then lit ''1e+21'' else [])"

datatype temperature = Null | Undefined | Num jsnumber

definition scaleLetter :: "jsstring \<Rightarrow> jsstring" where
  "scaleLetter scale = (if scale = lit ''Fahrenheit'' then lit ''F'' else lit ''C'')"

fun formatTemperature ::
  "(int \<Rightarrow> jsstring) \<Rightarrow> temperature \<Rightarrow> jsstring \<Rightarrow> jsstring" where
  "formatTemperature large Null scale = lit ''--'' @ [degree] @ scaleLetter scale"
| "formatTemperature large Undefined scale = lit ''--'' @ [degree] @ scaleLetter scale"
| "formatTemperature large (Num temp) scale =
     roundedToString large temp @ [degree] @ scaleLetter scale"

section \<open>Thrown values, HTTP responses and the proxy\<close>

text \<open>
  A thrown value is an \<open>Error\<close> instance with its message, or some other value. The
  errors raised by the language itself (reading a property of \<open>null\<close> or \<open>undefined\<close>,
  \<open>encodeURIComponent\<close> on a lone surrogate) are \<open>Error\<close> instances whose wording
  depends on the engine; they are named here by their class.
\<close>

datatype thrown = Error jsstring | NonError

definition TypeError :: thrown where
  "TypeError = Error (lit ''TypeError'')"

definition URIError :: thrown where
  "URIError = Error (lit ''URIError'')"

text \<open>
  \<open>proxy().fetch(url)\<close> either rejects or resolves to a response with a status code;
  \<open>response.json()\<close> then rejects or yields the parsed body. \<open>response.ok\<close> holds for
  the statuses 200 to 299.
\<close>

datatype 'b fetch_result = FetchRejects thrown | Response nat "thrown + 'b"

definition ok :: "nat \<Rightarrow> bool" where
  "ok status = (200 \<le> status \<and> status \<le> 299)"

text \<open>
  \<open>encodeURIComponent\<close> throws a \<open>URIError\<close> exactly when its argument is not
  well-formed UTF-16, that is, holds a surrogate code unit outside a high-low pair.
\<close>

definition isHighSurrogate :: "16 word \<Rightarrow> bool" where
  "isHighSurrogate c = (0xD800 \<le> c \<and> c \<le> 0xDBFF)"

definition isLowSurrogate :: "16 word \<Rightarrow> bool" where
  "isLowSurrogate c = (0xDC00 \<le> c \<and> c \<le> 0xDFFF)"

fun wellFormed :: "jsstring \<Rightarrow> bool" where
  "wellFormed [] = True"
| "wellFormed [c] = (\<not> isHighSurrogate c \<and> \<not> isLowSurrogate c)"
| "wellFormed (c # d # cs) =
     (if isHighSurrogate c then isLowSurrogate d \<and> wellFormed cs
      else \<not> isLowSurrogate c \<and> wellFormed (d # cs))"

text \<open>
  \<open>import.meta.env.VITE_...\<close> is a string or undefined; \<open>!apiKey\<close> holds for
  undefined and for the empty string.
\<close>

definition notConfigured :: "jsstring option \<Rightarrow> bool" where
  "notConfigured apiKey = (apiKey = None \<or> apiKey = Some [])"

section \<open>\<open>services/weatherService.ts\<close>: \<open>fetchPlacePredictions\<close>\<close>

text \<open>
  The parsed autocomplete body: \<open>null\<close> (reading \<open>data.status\<close> throws), or a value
  with an optional \<open>status\<close> and an optional (truthy) \<open>predictions\<close> list. The
  function talks to its surroundings through the proxy, the console and its two
  callbacks; the model returns these calls in order, and how the promise settles.
  The callbacks are the caller's own and are taken to return normally.
\<close>

datatype 'p places_data =
  PlacesNull
| PlacesData "jsstring option" "'p list option"

datatype 'p places_event =
  PFetch jsstring jsstring
| POnSuccess "'p list"
| POnError thrown
| PConsoleLog
| PConsoleError

datatype settled = Resolved | Rejected thrown

record 'p places_env =
  VITE_GOOGLE_PLACES_API_KEY :: "jsstring option"
  placesFetch :: "jsstring \<Rightarrow> jsstring \<Rightarrow> 'p places_data fetch_result"

text \<open>The body of the \<open>try\<close> block: its calls, and the value thrown if it throws.\<close>

definition placesTry ::
  "'p places_env \<Rightarrow> jsstring \<Rightarrow> 'p places_event list \<times> (thrown + unit)" where
  "placesTry env input =
     (case VITE_GOOGLE_PLACES_API_KEY env of
        None \<Rightarrow> ([PConsoleError], Inr ())
      | Some apiKey \<Rightarrow>
          if apiKey = [] then ([PConsoleError], Inr ())
          else if \<not> wellFormed input then ([], Inl URIError)
          else
            (case placesFetch env input apiKey of
               FetchRejects e \<Rightarrow> ([PFetch input apiKey], Inl e)
             | Response status body \<Rightarrow>
                 if \<not> ok status then
                   ([PFetch input apiKey],
                    Inl (Error (lit ''HTTP '' @ numberToString (int status))))
                 else
                   (case body of
                      Inl e \<Rightarrow> ([PFetch input apiKey], Inl e)
                    | Inr PlacesNull \<Rightarrow> ([PFetch input apiKey], Inl TypeError)
                    | Inr (PlacesData status predictions) \<Rightarrow>
                        if status = Some (lit ''OK'') \<and> predictions \<noteq> None then
                          ([PFetch input apiKey, PConsoleLog,
                            POnSuccess (the predictions)], Inr ())
                        else if status = Some (lit ''ZERO_RESULTS'') then
                          ([PFetch input apiKey, POnSuccess []], Inr ())
                        else
                          ([PFetch input apiKey, PConsoleError, POnSuccess []],
                           Inr ()))))"

definition fetchPlacePredictions ::
  "'p places_env \<Rightarrow> bool \<Rightarrow> jsstring \<Rightarrow> 'p places_event list \<times> settled" where
  "fetchPlacePredictions env hasOnError input =
     (if input = [] \<or> length input < 2 then ([POnSuccess []], Resolved)
      else
        (case placesTry env input of
           (calls, Inr _) \<Rightarrow> (calls, Resolved)
         | (calls, Inl err) \<Rightarrow>
             (calls @ [PConsoleError, POnSuccess []]
                @ (if hasOnError then [POnError err] else []),
              Resolved)))"

text \<open>The arguments of the \<open>onSuccess\<close> calls, and the network requests, of a run.\<close>

fun onSuccessCalls :: "'p places_event list \<Rightarrow> 'p list list" where
  "onSuccessCalls [] = []"
| "onSuccessCalls (POnSuccess ps # es) = ps # onSuccessCalls es"
| "onSuccessCalls (e # es) = onSuccessCalls es"

fun isCallback :: "'p places_event \<Rightarrow> bool" where
  "isCallback (POnSuccess ps) = True"
| "isCallback (POnError e) = True"
| "isCallback e = False"

fun isFetch :: "'p places_event \<Rightarrow> bool" where
  "isFetch (PFetch i k) = True"
| "isFetch e = False"

text \<open>
  Concrete surroundings for the runs evaluated below: the key configured and the
  request answered with three predictions, with \<open>ZERO_RESULTS\<close>, or not at all;
  and the key missing.
\<close>

definition placesOkEnv :: "nat places_env" where
  "placesOkEnv =
     \<lparr>VITE_GOOGLE_PLACES_API_KEY = Some (lit ''k''),
      placesFetch =
        (\<lambda>i k. Response 200 (Inr (PlacesData (Some (lit ''OK'')) (Some [3, 1, 2]))))\<rparr>"

definition placesZeroEnv :: "nat places_env" where
  "placesZeroEnv =
     \<lparr>VITE_GOOGLE_PLACES_API_KEY = Some (lit ''k''),
      placesFetch =
        (\<lambda>i k. Response 200 (Inr (PlacesData (Some (lit ''ZERO_RESULTS'')) None)))\<rparr>"

definition placesDownEnv :: "nat places_env" where
  "placesDownEnv =
     \<lparr>VITE_GOOGLE_PLACES_API_KEY = Some (lit ''k''),
      placesFetch = (\<lambda>i k. FetchRejects NonError)\<rparr>"

definition placesNoKeyEnv :: "nat places_env" where
  "placesNoKeyEnv =
     \<lparr>VITE_GOOGLE_PLACES_API_KEY = None,
      placesFetch =
        (\<lambda>i k. Response 200 (Inr (PlacesData (Some (lit ''OK'')) (Some [3, 1, 2]))))\<rparr>"

section \<open>\<open>services/weatherService.ts\<close>: \<open>fetchWeatherData\<close>\<close>

text \<open>
  The geocoding body as the code reads it: a falsy value, or an array whose first
  entry is destructured (an entry \<open>null\<close> makes the destructuring throw). The payloads
  of the two weather endpoints are opaque to the function and stay a type parameter.
\<close>

record geo_entry =
  lat :: rat
  lon :: rat

datatype geo_json = GeoFalsy | GeoArray "geo_entry option list"

record weather_request =
  req_lat :: rat
  req_lon :: rat
  appid :: jsstring
  units :: jsstring
  lang :: jsstring

datatype 'j weather_event =
  WConsoleLog
| WConsoleError
| WFetchGeo jsstring jsstring
| WFetchWeather weather_request
| WFetchForecast weather_request
| WOnWeatherData "'j option"
| WOnForecastData "'j option"
| WOnError thrown
| WStoreSet jsstring 'j

record 'j weather_env =
  VITE_OPENWEATHER_API_KEY :: "jsstring option"
  geoFetch :: "jsstring \<Rightarrow> jsstring \<Rightarrow> geo_json fetch_result"
  weatherFetch :: "weather_request \<Rightarrow> 'j fetch_result"
  forecastFetch :: "weather_request \<Rightarrow> 'j fetch_result"
  instanceSet :: "jsstring \<Rightarrow> 'j \<Rightarrow> thrown + bool"

text \<open>Which of the three optional callbacks the caller passed.\<close>

record weather_callbacks =
  hasOnWeatherData :: bool
  hasOnForecastData :: bool
  hasOnErrorCb :: bool

text \<open>Step 3 of the \<open>try\<close> block: the forecast request and its persistence.\<close>

definition forecastStep ::
  "'j weather_env \<Rightarrow> weather_callbacks \<Rightarrow> weather_request
     \<Rightarrow> 'j weather_event list \<times> (thrown + unit)" where
  "forecastStep env cb req =
     (case forecastFetch env req of
        FetchRejects e \<Rightarrow> ([WConsoleLog, WFetchForecast req], Inl e)
      | Response status body \<Rightarrow>
          if \<not> ok status then
            ([WConsoleLog, WFetchForecast req],
             Inl (Error (lit ''Forecast HTTP '' @ numberToString (int status))))
          else
            (case body of
               Inl e \<Rightarrow> ([WConsoleLog, WFetchForecast req], Inl e)
             | Inr forecast \<Rightarrow>
                 (let calls = [WConsoleLog, WFetchForecast req, WConsoleLog]
                        @ (if hasOnForecastData cb then [WOnForecastData (Some forecast)] else [])
                        @ [WStoreSet (lit ''forecastWeather'') forecast]
                  in case instanceSet env (lit ''forecastWeather'') forecast of
                       Inl e \<Rightarrow> (calls, Inl e)
                     | Inr stored \<Rightarrow> (calls @ [WConsoleLog], Inr ()))))"

text \<open>Step 2: the current-conditions request and its persistence, then step 3.\<close>

definition weatherStep ::
  "'j weather_env \<Rightarrow> weather_callbacks \<Rightarrow> weather_request
     \<Rightarrow> 'j weather_event list \<times> (thrown + unit)" where
  "weatherStep env cb req =
     (case weatherFetch env req of
        FetchRejects e \<Rightarrow> ([WConsoleLog, WFetchWeather req], Inl e)
      | Response status body \<Rightarrow>
          if \<not> ok status then
            ([WConsoleLog, WFetchWeather req],
             Inl (Error (lit ''Weather HTTP '' @ numberToString (int status))))
          else
            (case body of
               Inl e \<Rightarrow> ([WConsoleLog, WFetchWeather req], Inl e)
             | Inr data \<Rightarrow>
                 (let calls = [WConsoleLog, WFetchWeather req, WConsoleLog]
                        @ (if hasOnWeatherData cb then [WOnWeatherData (Some data)] else [])
                        @ [WStoreSet (lit ''currentWeather'') data]
                  in case instanceSet env (lit ''currentWeather'') data of
                       Inl e \<Rightarrow> (calls, Inl e)
                     | Inr stored \<Rightarrow>
                         (case forecastStep env cb req of
                            (later, r) \<Rightarrow> (calls @ [WConsoleLog] @ later, r)))))"

text \<open>Step 1: the API key check and the geocoding request, then step 2.\<close>

definition weatherTry ::
  "'j weather_env \<Rightarrow> weather_callbacks \<Rightarrow> jsstring \<Rightarrow> jsstring \<Rightarrow> jsstring
     \<Rightarrow> 'j weather_event list \<times> (thrown + unit)" where
  "weatherTry env cb cityName scale language =
     (case VITE_OPENWEATHER_API_KEY env of
        None \<Rightarrow> ([WConsoleError], Inr ())
      | Some apiKey \<Rightarrow>
          if apiKey = [] then ([WConsoleError], Inr ())
          else if \<not> wellFormed cityName then ([WConsoleLog], Inl URIError)
          else
            (case geoFetch env cityName apiKey of
               FetchRejects e \<Rightarrow> ([WConsoleLog, WFetchGeo cityName apiKey], Inl e)
             | Response status body \<Rightarrow>
                 if \<not> ok status then
                   ([WConsoleLog, WFetchGeo cityName apiKey],
                    Inl (Error (lit ''Geocoding HTTP '' @ numberToString (int status))))
                 else
                   (case body of
                      Inl e \<Rightarrow> ([WConsoleLog, WFetchGeo cityName apiKey], Inl e)
                    | Inr GeoFalsy \<Rightarrow>
                        ([WConsoleLog, WFetchGeo cityName apiKey],
                         Inl (Error (lit ''Location not found'')))
                    | Inr (GeoArray []) \<Rightarrow>
                        ([WConsoleLog, WFetchGeo cityName apiKey],
                         Inl (Error (lit ''Location not found'')))
                    | Inr (GeoArray (None # rest)) \<Rightarrow>
                        ([WConsoleLog, WFetchGeo cityName apiKey], Inl TypeError)
                    | Inr (GeoArray (Some entry # rest)) \<Rightarrow>
                        (case weatherStep env cb
                                \<lparr>req_lat = lat entry, req_lon = lon entry, appid = apiKey,
                                 units = (if scale = lit ''Fahrenheit'' then lit ''imperial''
                                          else lit ''metric''),
                                 lang = language\<rparr> of
                           (later, r) \<Rightarrow>
                             ([WConsoleLog, WFetchGeo cityName apiKey, WConsoleLog] @ later,
                              r)))))"

definition fetchWeatherData ::
  "'j weather_env \<Rightarrow> weather_callbacks \<Rightarrow> jsstring \<Rightarrow> jsstring \<Rightarrow> jsstring
     \<Rightarrow> 'j weather_event list \<times> settled" where
  "fetchWeatherData env cb cityName scale language =
     (case weatherTry env cb cityName scale language of
        (calls, Inr done) \<Rightarrow> (calls, Resolved)
      | (calls, Inl err) \<Rightarrow>
          (calls @ [WConsoleError]
             @ (if hasOnWeatherData cb then [WOnWeatherData None] else [])
             @ (if hasOnForecastData cb then [WOnForecastData None] else [])
             @ (if hasOnErrorCb cb then [WOnError err] else []),
           Resolved))"

text \<open>What each callback received, in order, and what was written to the store.\<close>

fun onWeatherDataCalls :: "'j weather_event list \<Rightarrow> 'j option list" where
  "onWeatherDataCalls [] = []"
| "onWeatherDataCalls (WOnWeatherData d # es) = d # onWeatherDataCalls es"
| "onWeatherDataCalls (e # es) = onWeatherDataCalls es"

fun onForecastDataCalls :: "'j weather_event list \<Rightarrow> 'j option list" where
  "onForecastDataCalls [] = []"
| "onForecastDataCalls (WOnForecastData d # es) = d # onForecastDataCalls es"
| "onForecastDataCalls (e # es) = onForecastDataCalls es"

fun onErrorCalls :: "'j weather_event list \<Rightarrow> thrown list" where
  "onErrorCalls [] = []"
| "onErrorCalls (WOnError t # es) = t # onErrorCalls es"
| "onErrorCalls (e # es) = onErrorCalls es"

fun storeSets :: "'j weather_event list \<Rightarrow> (jsstring \<times> 'j) list" where
  "storeSets [] = []"
| "storeSets (WStoreSet k v # es) = (k, v) # storeSets es"
| "storeSets (e # es) = storeSets es"

fun isWeatherFetch :: "'j weather_event \<Rightarrow> bool" where
  "isWeatherFetch (WFetchWeather r) = True"
| "isWeatherFetch (WFetchForecast r) = True"
| "isWeatherFetch e = False"

text \<open>
  Two concrete surroundings for the runs evaluated below: every request answered 200,
  the geocoder finding no place; and the geocoder and the current-conditions endpoint
  answering 200 while the forecast endpoint answers 503.
\<close>

definition allCallbacks :: weather_callbacks where
  "allCallbacks = \<lparr>hasOnWeatherData = True, hasOnForecastData = True, hasOnErrorCb = True\<rparr>"

definition emptyGeocodeEnv :: "nat weather_env" where
  "emptyGeocodeEnv =
     \<lparr>VITE_OPENWEATHER_API_KEY = Some (lit ''key''),
      geoFetch = (\<lambda>city k. Response 200 (Inr (GeoArray []))),
      weatherFetch = (\<lambda>r. Response 200 (Inr 7)),
      forecastFetch = (\<lambda>r. Response 200 (Inr 8)),
      instanceSet = (\<lambda>k v. Inr True)\<rparr>"

definition forecastDownEnv :: "nat weather_env" where
  "forecastDownEnv =
     \<lparr>VITE_OPENWEATHER_API_KEY = Some (lit ''key''),
      geoFetch = (\<lambda>city k. Response 200 (Inr (GeoArray [Some \<lparr>lat = 51, lon = 71\<rparr>]))),
      weatherFetch = (\<lambda>r. Response 200 (Inr 7)),
      forecastFetch = (\<lambda>r. Response 503 (Inr 8)),
      instanceSet = (\<lambda>k v. Inr True)\<rparr>"

section \<open>\<open>views/index.tsx\<close> and the \<open>Render\<close> view\<close>

text \<open>
  \<open>VIEW_REGISTRY\<close> is an object literal with seven own keys. Indexing it with any
  other string gives \<open>undefined\<close>, except for the names every object inherits from
  \<open>Object.prototype\<close>, which give that inherited member.
\<close>

datatype component = Flamingo | Sky | Urban | Watermelon | Neapolitan | Meadow | Forest

definition VIEW_REGISTRY :: "(jsstring \<times> component) list" where
  "VIEW_REGISTRY =
     [(lit ''flamingo'', Flamingo), (lit ''sky'', Sky), (lit ''urban'', Urban),
      (lit ''watermelon'', Watermelon), (lit ''neapolitan'', Neapolitan),
      (lit ''meadow'', Meadow), (lit ''forest'', Forest)]"

definition objectPrototypeKeys :: "jsstring list" where
  "objectPrototypeKeys =
     map lit [''constructor'', ''hasOwnProperty'', ''isPrototypeOf'',
       ''propertyIsEnumerable'', ''toLocaleString'', ''toString'', ''valueOf'',
       ''__proto__'', ''__defineGetter__'', ''__defineSetter__'', ''__lookupGetter__'',
       ''__lookupSetter__'']"

datatype element_type = Theme component | Inherited | UndefinedType

definition registryLookup :: "jsstring \<Rightarrow> element_type" where
  "registryLookup key =
     (case map_of VIEW_REGISTRY key of
        Some c \<Rightarrow> Theme c
      | None \<Rightarrow> if key \<in> set objectPrototypeKeys then Inherited else UndefinedType)"

record viewConfig =
  selectedView :: jsstring

text \<open>
  What \<open>Render\<close> returns for the current \<open>config\<close> state (\<open>None\<close>: undefined or
  null): the placeholder text, or an element whose type is the looked-up value.
\<close>

datatype rendered = Placeholder | Element element_type

definition Render :: "viewConfig option \<Rightarrow> rendered" where
  "Render config =
     (case config of
        None \<Rightarrow> Placeholder
      | Some c \<Rightarrow> Element (registryLookup (selectedView c)))"

section \<open>\<open>workers/weather_service.tsx\<close>: the polling worker\<close>

text \<open>
  The worker's surroundings answer each run of the two fetch functions: run \<open>0\<close> is
  the one at start, run \<open>k\<close> the one of the \<open>k\<close>-th interval tick. No status check is
  made; any parsed body is written to device storage.
\<close>

datatype 'j worker_event =
  KLog
| KError
| KFetchCurrent
| KFetchForecast
| KDeviceSet jsstring 'j

record 'j worker_env =
  currentResponse :: "nat \<Rightarrow> 'j fetch_result"
  forecastResponse :: "nat \<Rightarrow> 'j fetch_result"
  deviceSet :: "jsstring \<Rightarrow> 'j \<Rightarrow> thrown + bool"

definition getCurrentWeather :: "'j worker_env \<Rightarrow> nat \<Rightarrow> 'j worker_event list" where
  "getCurrentWeather env n =
     (case currentResponse env n of
        FetchRejects e \<Rightarrow> [KFetchCurrent, KError]
      | Response status body \<Rightarrow>
          (case body of
             Inl e \<Rightarrow> [KFetchCurrent, KError]
           | Inr results \<Rightarrow>
               (case deviceSet env (lit ''currentWeather'') results of
                  Inl e \<Rightarrow> [KFetchCurrent, KDeviceSet (lit ''currentWeather'') results, KError]
                | Inr stored \<Rightarrow>
                    [KFetchCurrent, KDeviceSet (lit ''currentWeather'') results, KLog])))"

definition getForecast :: "'j worker_env \<Rightarrow> nat \<Rightarrow> 'j worker_event list" where
  "getForecast env n =
     (case forecastResponse env n of
        FetchRejects e \<Rightarrow> [KFetchForecast, KError]
      | Response status body \<Rightarrow>
          (case body of
             Inl e \<Rightarrow> [KFetchForecast, KError]
           | Inr results \<Rightarrow>
               (case deviceSet env (lit ''weatherForecast'') results of
                  Inl e \<Rightarrow> [KFetchForecast, KDeviceSet (lit ''weatherForecast'') results, KError]
                | Inr stored \<Rightarrow>
                    [KFetchForecast, KDeviceSet (lit ''weatherForecast'') results, KLog])))"

text \<open>The interval in milliseconds, and the callback \<open>setInterval\<close> is given.\<close>

definition weatherIntervalMs :: nat where
  "weatherIntervalMs = 30 * 60 * 1000"

definition intervalCallback :: "'j worker_env \<Rightarrow> nat \<Rightarrow> 'j worker_event list" where
  "intervalCallback env n = [KLog] @ getCurrentWeather env n"

text \<open>The worker's own body, up to its return after scheduling the interval.\<close>

definition openWeatherMapWorker :: "'j worker_env \<Rightarrow> 'j worker_event list" where
  "openWeatherMapWorker env =
     [KLog, KLog] @ getCurrentWeather env 0 @ getForecast env 0 @ [KLog] @ [KLog]"

text \<open>The worker observed until its \<open>ticks\<close>-th interval tick has run.\<close>

definition workerRun :: "'j worker_env \<Rightarrow> nat \<Rightarrow> 'j worker_event list" where
  "workerRun env ticks =
     openWeatherMapWorker env @ concat (map (intervalCallback env) [1..<Suc ticks])"

fun isForecastEvent :: "'j worker_event \<Rightarrow> bool" where
  "isForecastEvent KFetchForecast = True"
| "isForecastEvent (KDeviceSet k v) = (k = lit ''weatherForecast'')"
| "isForecastEvent e = False"

text \<open>Surroundings in which every request succeeds and every write is accepted.\<close>

definition healthyWorkerEnv :: "nat worker_env" where
  "healthyWorkerEnv =
     \<lparr>currentResponse = (\<lambda>n. Response 200 (Inr (10 + n))),
      forecastResponse = (\<lambda>n. Response 200 (Inr (20 + n))),
      deviceSet = (\<lambda>k v. Inr True)\<rparr>"

section \<open>\<open>utils/weatherIcons.tsx\<close> and the daily aggregation of the weather card\<close>




text \<open>
  A forecast sample: \<open>dt\<close> in Unix seconds, \<open>main.temp\<close>, and the \<open>weather\<close> array.
\<close>

record condition =
  main :: jsstring
  description :: jsstring

record sample =
  dt :: int
  temp :: rat
  weather :: "condition list"



definition utcDay :: "int \<Rightarrow> int" where
  "utcDay t = t div 86400"










text \<open>
  The specification's reading of the grouping, for comparison with the code: the UTC
  days of the samples in the order of their first occurrence, and the temperatures
  of one day in sample order.
\<close>

definition daysInOrder :: "sample list \<Rightarrow> int list" where
  "daysInOrder samples = rev (remdups (rev (map (\<lambda>s. utcDay (dt s)) samples)))"





section \<open>\<open>views/Settings.tsx\<close>: \<open>handleSave\<close>\<close>

text \<open>
  The part of the component state that \<open>handleSave\<close> reads and writes.
\<close>

record settings_state =
  config :: viewConfig
  loading :: bool
  error :: "jsstring option"
  dateTimeOption :: jsstring
  dateFormat :: jsstring
  timeFormat :: jsstring
  scale :: jsstring
  language :: jsstring

record date_time_settings =
  dts_option :: jsstring
  dts_dateFormat :: jsstring
  dts_timeFormat :: jsstring
  formattedDate :: jsstring
  formattedTime :: jsstring

datatype stored_value =
  StoredViewConfig viewConfig
| StoredDateTime date_time_settings
| StoredScale jsstring
| StoredLanguage jsstring

type_synonym instance_store = "jsstring \<Rightarrow> stored_value option"

text \<open>
  The surroundings of one submission: how \<open>store().instance.set\<close> settles for each
  key (it rejects, or resolves to a boolean), what the locale formatting of the
  current time gives, and what \<open>format\<close> of date-fns gives or throws for a pattern.
\<close>

record save_env =
  setResult :: "jsstring \<Rightarrow> thrown + bool"
  toLocaleDateString :: jsstring
  toLocaleTimeString :: jsstring
  format :: "jsstring \<Rightarrow> thrown + jsstring"

text \<open>
  Modelled from the spec: the instance store of the host SDK, which is not part of
  this repository (\<open>set(key, value) -> boolean\<close>). A write takes effect exactly when
  the call resolves to \<open>true\<close>.
\<close>

definition instanceStoreSet ::
  "save_env \<Rightarrow> instance_store \<Rightarrow> jsstring \<Rightarrow> stored_value
     \<Rightarrow> instance_store \<times> (thrown + bool)" where
  "instanceStoreSet env store key v =
     (case setResult env key of
        Inl e \<Rightarrow> (store, Inl e)
      | Inr success \<Rightarrow> ((if success then store(key \<mapsto> v) else store), Inr success))"

text \<open>The formatted date and time of the \<open>try\<close> block.\<close>

definition formatted :: "save_env \<Rightarrow> settings_state \<Rightarrow> thrown + (jsstring \<times> jsstring)" where
  "formatted env s =
     (if dateTimeOption s = lit ''Default'' then
        Inr (toLocaleDateString env, toLocaleTimeString env)
      else if dateTimeOption s = lit ''Custom'' then
        (case format env (dateFormat s) of
           Inl e \<Rightarrow> Inl e
         | Inr fd \<Rightarrow>
             (case format env (timeFormat s) of
                Inl e \<Rightarrow> Inl e
              | Inr ft \<Rightarrow> Inr (fd, ft)))
      else Inr ([], []))"

definition dateTimeValue :: "settings_state \<Rightarrow> jsstring \<Rightarrow> jsstring \<Rightarrow> stored_value" where
  "dateTimeValue s fd ft =
     StoredDateTime
       \<lparr>dts_option = dateTimeOption s, dts_dateFormat = dateFormat s,
        dts_timeFormat = timeFormat s, formattedDate = fd, formattedTime = ft\<rparr>"

text \<open>
  The \<open>try\<close> block: the store after it, the keys \<open>set\<close> was called with, in order,
  and the value thrown if it throws. Only the result of the first \<open>set\<close> is looked at.
\<close>

definition saveTry ::
  "save_env \<Rightarrow> settings_state \<Rightarrow> instance_store
     \<Rightarrow> instance_store \<times> jsstring list \<times> (thrown + unit)" where
  "saveTry env s store =
     (case instanceStoreSet env store (lit ''viewConfig'') (StoredViewConfig (config s)) of
        (st1, Inl e) \<Rightarrow> (st1, [lit ''viewConfig''], Inl e)
      | (st1, Inr success) \<Rightarrow>
          if \<not> success then
            (st1, [lit ''viewConfig''], Inl (Error (lit ''Failed to save configuration'')))
          else
            (case formatted env s of
               Inl e \<Rightarrow> (st1, [lit ''viewConfig''], Inl e)
             | Inr (fd, ft) \<Rightarrow>
                 (case instanceStoreSet env st1 (lit ''dateTimeSettings'')
                         (dateTimeValue s fd ft) of
                    (st2, Inl e) \<Rightarrow>
                      (st2, [lit ''viewConfig'', lit ''dateTimeSettings''], Inl e)
                  | (st2, Inr r2) \<Rightarrow>
                      (case instanceStoreSet env st2 (lit ''scaleSettings'')
                              (StoredScale (scale s)) of
                         (st3, Inl e) \<Rightarrow>
                           (st3, [lit ''viewConfig'', lit ''dateTimeSettings'',
                                  lit ''scaleSettings''], Inl e)
                       | (st3, Inr r3) \<Rightarrow>
                           (case instanceStoreSet env st3 (lit ''languageSettings'')
                                   (StoredLanguage (language s)) of
                              (st4, Inl e) \<Rightarrow>
                                (st4, [lit ''viewConfig'', lit ''dateTimeSettings'',
                                       lit ''scaleSettings'', lit ''languageSettings''],
                                 Inl e)
                            | (st4, Inr r4) \<Rightarrow>
                                (st4, [lit ''viewConfig'', lit ''dateTimeSettings'',
                                       lit ''scaleSettings'', lit ''languageSettings''],
                                 Inr ()))))))"

definition handleSave ::
  "save_env \<Rightarrow> settings_state \<Rightarrow> instance_store
     \<Rightarrow> settings_state \<times> instance_store \<times> jsstring list" where
  "handleSave env s store =
     (let s1 = s\<lparr>loading := True, error := None\<rparr> in
      case saveTry env s1 store of
        (store', keys, Inr done) \<Rightarrow> (s1\<lparr>loading := False\<rparr>, store', keys)
      | (store', keys, Inl err) \<Rightarrow>
          (s1\<lparr>error := Some (case err of Error m \<Rightarrow> m | NonError \<Rightarrow> lit ''Unknown error''),
              loading := False\<rparr>,
           store', keys))"

text \<open>
  The claim's reading of the handler, for comparison: the four keys in their order,
  when a write counts as failed (for \<open>viewConfig\<close> also when it resolves to
  \<open>false\<close>), the keys up to and including the first failed one, and the value saved
  under each key.
\<close>

definition saveOrder :: "jsstring list" where
  "saveOrder =
     [lit ''viewConfig'', lit ''dateTimeSettings'', lit ''scaleSettings'',
      lit ''languageSettings'']"

definition writeFails :: "save_env \<Rightarrow> jsstring \<Rightarrow> bool" where
  "writeFails env key =
     (case setResult env key of
        Inl e \<Rightarrow> True
      | Inr success \<Rightarrow> key = lit ''viewConfig'' \<and> \<not> success)"

fun uptoFirstFailure :: "(jsstring \<Rightarrow> bool) \<Rightarrow> jsstring list \<Rightarrow> jsstring list" where
  "uptoFirstFailure fails [] = []"
| "uptoFirstFailure fails (k # ks) =
     (if fails k then [k] else k # uptoFirstFailure fails ks)"

definition savedValue ::
  "settings_state \<Rightarrow> jsstring \<Rightarrow> jsstring \<Rightarrow> jsstring \<Rightarrow> stored_value" where
  "savedValue s fd ft key =
     (if key = lit ''viewConfig'' then StoredViewConfig (config s)
      else if key = lit ''dateTimeSettings'' then dateTimeValue s fd ft
      else if key = lit ''scaleSettings'' then StoredScale (scale s)
      else StoredLanguage (language s))"

text \<open>A submission in which the third write is rejected.\<close>

definition scaleRejectedEnv :: save_env where
  "scaleRejectedEnv =
     \<lparr>setResult = (\<lambda>k. if k = lit ''scaleSettings'' then Inl (Error (lit ''timeout''))
                        else Inr True),
      toLocaleDateString = lit ''Monday, June 3'',
      toLocaleTimeString = lit ''09:30 AM'',
      format = (\<lambda>p. Inr p)\<rparr>"

definition viewRefusedEnv :: save_env where
  "viewRefusedEnv =
     \<lparr>setResult = (\<lambda>k. if k = lit ''viewConfig'' then Inr False else Inr True),
      toLocaleDateString = lit ''Monday, June 3'',
      toLocaleTimeString = lit ''09:30 AM'',
      format = (\<lambda>p. Inr p)\<rparr>"

definition badPatternEnv :: save_env where
  "badPatternEnv =
     \<lparr>setResult = (\<lambda>k. Inr True),
      toLocaleDateString = lit ''Monday, June 3'',
      toLocaleTimeString = lit ''09:30 AM'',
      format = (\<lambda>p. Inl (Error (lit ''Invalid time value'')))\<rparr>"

definition formState :: settings_state where
  "formState =
     \<lparr>config = \<lparr>selectedView = lit ''sky''\<rparr>, loading = False, error = None,
      dateTimeOption = lit ''Default'', dateFormat = lit ''MMM-d'',
      timeFormat = lit ''h:mm a'', scale = lit ''Celsius'', language = lit ''en''\<rparr>"

section \<open>Properties of the number formatting\<close>

lemma digitsValue_snoc:
  "digitsValue (s @ [d]) = 10 * digitsValue s + unat (d - 0x30)"
  by (simp add: digitsValue_def)

lemma unat_digit: "k < 10 \<Longrightarrow> unat ((0x30 :: 16 word) + of_nat k - 0x30) = k"
  by (simp add: unat_of_nat take_bit_nat_eq_self)

lemma digitsValue_decimal: "digitsValue (decimal n) = n"
proof (induction n rule: decimal.induct)
  case (1 n)
  show ?case
  proof (cases "n < 10")
    case True
    then show ?thesis
      using unat_digit [of n] by (simp add: decimal.simps [of n] digitsValue_def)
  next
    case False
    have "n mod 10 < 10" by simp
    then have "unat ((0x30 :: 16 word) + of_nat (n mod 10) - 0x30) = n mod 10"
      by (rule unat_digit)
    with False "1.IH" show ?thesis
      by (simp add: decimal.simps [of n] digitsValue_snoc)
  qed
qed

lemma Math_round_nearest: "\<bar>of_int (Math_round x) - x\<bar> \<le> 1 / 2"
  unfolding Math_round_def by linarith


text \<open>
  Claim C8, as stated, fails: for the numbers \<open>NaN\<close> and \<open>Infinity\<close> the result is
  \<open>NaN\<degree>C\<close> and \<open>Infinity\<degree>C\<close>, not an integer followed by the unit.
\<close>

theorem formatTemperature_non_finite_counterexample:
  "formatTemperature largeAt21 (Num NaN) (lit ''Celsius'') = lit ''NaN'' @ [0xB0] @ lit ''C''
   \<and> formatTemperature largeAt21 (Num PosInfinity) (lit ''Celsius'')
       = lit ''Infinity'' @ [0xB0] @ lit ''C''"
  by (simp add: roundedToString_def scaleLetter_def degree_def) (simp add: lit_def)

text \<open>
  Claim C8, amended. For a null or undefined temperature \<open>formatTemperature\<close>
  returns \<open>--\<degree>F\<close> when the scale is \<open>Fahrenheit\<close> and \<open>--\<degree>C\<close> for every other
  scale. For a finite number of magnitude at most \<open>2^53\<close> it returns the decimal
  numeral of the nearest integer (at most one half away, and reading the digits back
  gives that integer's magnitude) followed by the same unit label; in particular
  \<open>formatTemperature(null, "Celsius")\<close> is \<open>--\<degree>C\<close> and
  \<open>formatTemperature(21.6, "Fahrenheit")\<close> is \<open>22\<degree>F\<close>. For \<open>NaN\<close> and the
  infinities it returns \<open>NaN\<close>, \<open>Infinity\<close> or \<open>-Infinity\<close> followed by the unit
  label, and for a larger finite number JavaScript's rendering of the rounded value
  (exponent notation from \<open>10^21\<close> on) followed by the unit label.
\<close>

theorem formatTemperature_spec:
  "(tv = Null \<or> tv = Undefined \<longrightarrow>
      formatTemperature large tv sc =
        (if sc = lit ''Fahrenheit'' then lit ''--'' @ [0xB0] @ lit ''F''
         else lit ''--'' @ [0xB0] @ lit ''C''))
   \<and> (\<bar>t\<bar> \<le> 2 ^ 53 \<longrightarrow>
        (\<exists>r s. formatTemperature large (Num (Finite t)) sc =
            s @ [0xB0] @ (if sc = lit ''Fahrenheit'' then lit ''F'' else lit ''C'')
          \<and> \<bar>of_int r - t\<bar> \<le> 1 / 2
          \<and> s = (if r < 0 then lit ''-'' else []) @ decimal (nat \<bar>r\<bar>)
          \<and> digitsValue (decimal (nat \<bar>r\<bar>)) = nat \<bar>r\<bar>))
   \<and> formatTemperature large (Num NaN) sc =
        lit ''NaN'' @ [0xB0] @ (if sc = lit ''Fahrenheit'' then lit ''F'' else lit ''C'')
   \<and> formatTemperature large (Num PosInfinity) sc =
        lit ''Infinity'' @ [0xB0] @ (if sc = lit ''Fahrenheit'' then lit ''F'' else lit ''C'')
   \<and> formatTemperature large (Num NegInfinity) sc =
        lit ''-Infinity'' @ [0xB0] @ (if sc = lit ''Fahrenheit'' then lit ''F'' else lit ''C'')
   \<and> (2 ^ 53 < \<bar>\<lfloor>t + 1 / 2\<rfloor>\<bar> \<longrightarrow>
        formatTemperature large (Num (Finite t)) sc =
          large \<lfloor>t + 1 / 2\<rfloor> @ [0xB0]
            @ (if sc = lit ''Fahrenheit'' then lit ''F'' else lit ''C''))
   \<and> formatTemperature large Null (lit ''Celsius'') = lit ''--'' @ [0xB0] @ lit ''C''
   \<and> formatTemperature large (Num (Finite 21.6)) (lit ''Fahrenheit'')
        = lit ''22'' @ [0xB0] @ lit ''F''"
proof (intro conjI impI)
  assume "tv = Null \<or> tv = Undefined"
  then show "formatTemperature large tv sc =
        (if sc = lit ''Fahrenheit'' then lit ''--'' @ [0xB0] @ lit ''F''
         else lit ''--'' @ [0xB0] @ lit ''C'')"
    by (auto simp: scaleLetter_def degree_def)
next
  assume bound: "\<bar>t\<bar> \<le> 2 ^ 53"
  let ?r = "Math_round t"
  have "\<bar>t\<bar> \<le> 9007199254740992"
    using bound by simp
  then have "\<bar>?r\<bar> \<le> 9007199254740992"
    unfolding Math_round_def by linarith
  then have "\<bar>?r\<bar> \<le> 2 ^ 53"
    by simp
  then have "formatTemperature large (Num (Finite t)) sc =
          ((if ?r < 0 then lit ''-'' else []) @ decimal (nat \<bar>?r\<bar>)) @ [0xB0]
            @ (if sc = lit ''Fahrenheit'' then lit ''F'' else lit ''C'')"
    by (simp add: roundedToString_def scaleLetter_def degree_def numberToString_def)
  moreover have "\<bar>of_int ?r - t\<bar> \<le> 1 / 2"
    by (rule Math_round_nearest)
  moreover have "digitsValue (decimal (nat \<bar>?r\<bar>)) = nat \<bar>?r\<bar>"
    by (rule digitsValue_decimal)
  ultimately show "\<exists>r s. formatTemperature large (Num (Finite t)) sc =
          s @ [0xB0] @ (if sc = lit ''Fahrenheit'' then lit ''F'' else lit ''C'')
        \<and> \<bar>of_int r - t\<bar> \<le> 1 / 2
        \<and> s = (if r < 0 then lit ''-'' else []) @ decimal (nat \<bar>r\<bar>)
        \<and> digitsValue (decimal (nat \<bar>r\<bar>)) = nat \<bar>r\<bar>"
    by blast
next
  show "formatTemperature large (Num NaN) sc =
        lit ''NaN'' @ [0xB0] @ (if sc = lit ''Fahrenheit'' then lit ''F'' else lit ''C'')"
    by (simp add: roundedToString_def scaleLetter_def degree_def)
next
  show "formatTemperature large (Num PosInfinity) sc =
        lit ''Infinity'' @ [0xB0] @ (if sc = lit ''Fahrenheit'' then lit ''F'' else lit ''C'')"
    by (simp add: roundedToString_def scaleLetter_def degree_def)
next
  show "formatTemperature large (Num NegInfinity) sc =
        lit ''-Infinity'' @ [0xB0] @ (if sc = lit ''Fahrenheit'' then lit ''F'' else lit ''C'')"
    by (simp add: roundedToString_def scaleLetter_def degree_def)
next
  assume "2 ^ 53 < \<bar>\<lfloor>t + 1 / 2\<rfloor>\<bar>"
  then show "formatTemperature large (Num (Finite t)) sc =
          large \<lfloor>t + 1 / 2\<rfloor> @ [0xB0]
            @ (if sc = lit ''Fahrenheit'' then lit ''F'' else lit ''C'')"
    by (simp add: roundedToString_def Math_round_def scaleLetter_def degree_def)
next
  show "formatTemperature large Null (lit ''Celsius'') = lit ''--'' @ [0xB0] @ lit ''C''"
    by (simp add: scaleLetter_def degree_def lit_def)
next
  have "Math_round 21.6 = 22"
    unfolding Math_round_def by linarith
  then show "formatTemperature large (Num (Finite 21.6)) (lit ''Fahrenheit'')
      = lit ''22'' @ [0xB0] @ lit ''F''"
    by (simp add: roundedToString_def scaleLetter_def degree_def numberToString_def
        decimal.simps lit_def)
qed

theorem formatTemperature_spec_witness:
  "(Undefined = Null \<or> Undefined = Undefined)
   \<and> formatTemperature largeAt21 Undefined (lit ''Kelvin'') = lit ''--'' @ [0xB0] @ lit ''C''
   \<and> \<bar>- 4 / 10 :: rat\<bar> \<le> 2 ^ 53
   \<and> formatTemperature largeAt21 (Num (Finite (- 4 / 10))) (lit ''Celsius'')
       = lit ''0'' @ [0xB0] @ lit ''C''
   \<and> formatTemperature largeAt21 (Num (Finite 21.6)) (lit ''Fahrenheit'')
       = lit ''22'' @ [0xB0] @ lit ''F''
   \<and> 2 ^ 53 < \<bar>\<lfloor>(10 ^ 21 :: rat) + 1 / 2\<rfloor>\<bar>
   \<and> formatTemperature largeAt21 (Num (Finite (10 ^ 21))) (lit ''Celsius'')
       = lit ''1e+21'' @ [0xB0] @ lit ''C''"
proof -
  have ne: "lit ''Kelvin'' \<noteq> lit ''Fahrenheit''" "lit ''Celsius'' \<noteq> lit ''Fahrenheit''"
    by (simp_all add: lit_def)
  have small: "\<bar>- 4 / 10 :: rat\<bar> \<le> 2 ^ 53"
    by simp
  have fl: "\<lfloor>(10 ^ 21 :: rat) + 1 / 2\<rfloor> = 10 ^ 21"
    by (simp add: floor_eq_iff)
  have big: "2 ^ 53 < \<bar>\<lfloor>(10 ^ 21 :: rat) + 1 / 2\<rfloor>\<bar>"
    unfolding fl by simp
  have r0: "Math_round (- 4 / 10) = 0"
    unfolding Math_round_def by linarith
  have zero: "formatTemperature largeAt21 (Num (Finite (- 4 / 10))) (lit ''Celsius'')
       = lit ''0'' @ [0xB0] @ lit ''C''"
    using ne r0
    by (simp add: roundedToString_def scaleLetter_def degree_def numberToString_def
        decimal.simps) (simp add: lit_def)
  from formatTemperature_spec [of Undefined largeAt21 "lit ''Kelvin''" "- 4 / 10"] ne
  have a: "formatTemperature largeAt21 Undefined (lit ''Kelvin'') = lit ''--'' @ [0xB0] @ lit ''C''"
    and b: "formatTemperature largeAt21 (Num (Finite 21.6)) (lit ''Fahrenheit'')
       = lit ''22'' @ [0xB0] @ lit ''F''"
    by simp_all
  from formatTemperature_spec [of Undefined largeAt21 "lit ''Kelvin''" "- 4 / 10"] small
  have "\<exists>r s. formatTemperature largeAt21 (Num (Finite (- 4 / 10))) (lit ''Kelvin'') =
            s @ [0xB0] @ (if lit ''Kelvin'' = lit ''Fahrenheit'' then lit ''F'' else lit ''C'')
          \<and> \<bar>of_int r - (- 4 / 10 :: rat)\<bar> \<le> 1 / 2
          \<and> s = (if r < 0 then lit ''-'' else []) @ decimal (nat \<bar>r\<bar>)
          \<and> digitsValue (decimal (nat \<bar>r\<bar>)) = nat \<bar>r\<bar>"
    by blast
  from formatTemperature_spec [of Undefined largeAt21 "lit ''Celsius''" "10 ^ 21"] big
  have "formatTemperature largeAt21 (Num (Finite (10 ^ 21))) (lit ''Celsius'') =
          largeAt21 \<lfloor>(10 ^ 21 :: rat) + 1 / 2\<rfloor> @ [0xB0]
            @ (if lit ''Celsius'' = lit ''Fahrenheit'' then lit ''F'' else lit ''C'')"
    by blast
  then have c: "formatTemperature largeAt21 (Num (Finite (10 ^ 21))) (lit ''Celsius'')
       = lit ''1e+21'' @ [0xB0] @ lit ''C''"
    unfolding fl using ne by (simp add: largeAt21_def)
  from a small zero b big c show ?thesis by simp
qed

section \<open>Properties of \<open>fetchPlacePredictions\<close>\<close>

text \<open>
  Claim C6. For every input shorter than 2 code units, the empty string included,
  \<open>fetchPlacePredictions\<close> calls \<open>onSuccess\<close> with the empty prediction list, calls
  nothing else, and issues no network request.
\<close>

theorem fetchPlacePredictions_short_input:
  assumes "length input < 2"
  shows "fetchPlacePredictions env hasOnError input = ([POnSuccess []], Resolved)
    \<and> \<not> list_ex isFetch (fst (fetchPlacePredictions env hasOnError input))"
  using assms by (simp add: fetchPlacePredictions_def)

theorem fetchPlacePredictions_short_input_witness:
  "length (lit ''A'') < 2
   \<and> fetchPlacePredictions placesOkEnv True (lit ''A'') = ([POnSuccess []], Resolved)
   \<and> fetchPlacePredictions placesOkEnv True [] = ([POnSuccess []], Resolved)"
  using fetchPlacePredictions_short_input [of "lit ''A''" placesOkEnv True]
    fetchPlacePredictions_short_input [of "[]" placesOkEnv True]
  by (simp add: lit_def)

text \<open>
  Claim C7. For every input of at least 2 code units, with the API key configured,
  the promise of \<open>fetchPlacePredictions\<close> resolves (nothing is thrown to the caller)
  and \<open>onSuccess\<close> is called exactly once: with the prediction list of the response,
  unchanged, when the request is answered 2xx with status \<open>OK\<close>; with the empty list
  on \<open>ZERO_RESULTS\<close>; and with the empty list, after a \<open>console.error\<close>, on any other
  status, a non-2xx response, and a failure of the request or of parsing.
\<close>

theorem fetchPlacePredictions_never_throws:
  assumes "2 \<le> length input"
    and "VITE_GOOGLE_PLACES_API_KEY env = Some apiKey" and "apiKey \<noteq> []"
  shows "snd (fetchPlacePredictions env hasOnError input) = Resolved
    \<and> (\<forall>status ps. wellFormed input \<and> ok status
          \<and> placesFetch env input apiKey =
              Response status (Inr (PlacesData (Some (lit ''OK'')) (Some ps)))
        \<longrightarrow> onSuccessCalls (fst (fetchPlacePredictions env hasOnError input)) = [ps])
    \<and> (\<forall>status predictions. wellFormed input \<and> ok status
          \<and> placesFetch env input apiKey =
              Response status (Inr (PlacesData (Some (lit ''ZERO_RESULTS'')) predictions))
        \<longrightarrow> onSuccessCalls (fst (fetchPlacePredictions env hasOnError input)) = [[]])
    \<and> ((\<forall>status predictions. placesFetch env input apiKey \<noteq>
              Response status (Inr (PlacesData (Some (lit ''OK'')) (Some predictions)))
            \<or> \<not> ok status)
        \<longrightarrow> onSuccessCalls (fst (fetchPlacePredictions env hasOnError input)) = [[]])
    \<and> ((\<forall>status predictions. placesFetch env input apiKey \<noteq>
              Response status (Inr (PlacesData (Some (lit ''OK'')) (Some predictions)))
            \<or> \<not> ok status)
        \<and> (\<forall>status predictions. placesFetch env input apiKey \<noteq>
              Response status (Inr (PlacesData (Some (lit ''ZERO_RESULTS'')) predictions))
            \<or> \<not> ok status)
        \<and> wellFormed input
        \<longrightarrow> PConsoleError \<in> set (fst (fetchPlacePredictions env hasOnError input)))"
proof -
  have ne: "input \<noteq> []" "\<not> length input < 2"
    using assms(1) by auto
  have neq: "lit ''ZERO_RESULTS'' \<noteq> lit ''OK''"
    by (simp add: lit_def)
  show ?thesis
    using ne assms(2,3) neq
    by (auto simp: fetchPlacePredictions_def placesTry_def
        split: fetch_result.splits sum.splits places_data.splits option.splits)
qed

lemma wellFormed_As: "wellFormed (lit ''As'')"
  by (simp add: lit_def isHighSurrogate_def isLowSurrogate_def)

lemma length_As: "2 \<le> length (lit ''As'')"
  by (simp add: lit_def)

lemma key_k: "lit ''k'' \<noteq> []"
  by (simp add: lit_def)

theorem fetchPlacePredictions_never_throws_witness:
  "fetchPlacePredictions placesOkEnv True (lit ''As'')
     = ([PFetch (lit ''As'') (lit ''k''), PConsoleLog, POnSuccess [3, 1, 2]], Resolved)
   \<and> onSuccessCalls (fst (fetchPlacePredictions placesOkEnv True (lit ''As''))) = [[3, 1, 2]]
   \<and> onSuccessCalls (fst (fetchPlacePredictions placesZeroEnv True (lit ''As''))) = [[]]
   \<and> onSuccessCalls (fst (fetchPlacePredictions placesDownEnv True (lit ''As''))) = [[]]
   \<and> PConsoleError \<in> set (fst (fetchPlacePredictions placesDownEnv True (lit ''As'')))
   \<and> snd (fetchPlacePredictions placesDownEnv True (lit ''As'')) = Resolved"
proof -
  have run: "fetchPlacePredictions placesOkEnv True (lit ''As'')
      = ([PFetch (lit ''As'') (lit ''k''), PConsoleLog, POnSuccess [3, 1, 2]], Resolved)"
    using wellFormed_As key_k
    by (simp add: fetchPlacePredictions_def placesTry_def placesOkEnv_def ok_def)
      (simp add: lit_def)
  have ok: "VITE_GOOGLE_PLACES_API_KEY placesOkEnv = Some (lit ''k'')"
    "placesFetch placesOkEnv (lit ''As'') (lit ''k'') =
       Response 200 (Inr (PlacesData (Some (lit ''OK'')) (Some [3, 1, 2])))"
    by (simp_all add: placesOkEnv_def)
  have zero: "VITE_GOOGLE_PLACES_API_KEY placesZeroEnv = Some (lit ''k'')"
    "placesFetch placesZeroEnv (lit ''As'') (lit ''k'') =
       Response 200 (Inr (PlacesData (Some (lit ''ZERO_RESULTS'')) None))"
    by (simp_all add: placesZeroEnv_def)
  have down: "VITE_GOOGLE_PLACES_API_KEY placesDownEnv = Some (lit ''k'')"
    "placesFetch placesDownEnv (lit ''As'') (lit ''k'') = FetchRejects NonError"
    by (simp_all add: placesDownEnv_def)
  have ok200: "ok 200"
    by (simp add: ok_def)
  from fetchPlacePredictions_never_throws [OF length_As ok(1) key_k, of True]
    wellFormed_As ok200 ok(2)
  have a: "onSuccessCalls (fst (fetchPlacePredictions placesOkEnv True (lit ''As''))) = [[3, 1, 2]]"
    by blast
  from fetchPlacePredictions_never_throws [OF length_As zero(1) key_k, of True]
    wellFormed_As ok200 zero(2)
  have b: "onSuccessCalls (fst (fetchPlacePredictions placesZeroEnv True (lit ''As''))) = [[]]"
    by blast
  from fetchPlacePredictions_never_throws [OF length_As down(1) key_k, of True]
    wellFormed_As
  have c: "onSuccessCalls (fst (fetchPlacePredictions placesDownEnv True (lit ''As''))) = [[]]"
    and d: "PConsoleError \<in> set (fst (fetchPlacePredictions placesDownEnv True (lit ''As'')))"
    and e: "snd (fetchPlacePredictions placesDownEnv True (lit ''As'')) = Resolved"
    by (simp_all add: down(2))
  from run a b c d e show ?thesis by simp
qed

text \<open>
  Claim C10. When the Places API key is not configured (undefined or empty), a call
  with an input of at least 2 code units logs an error and returns: neither
  \<open>onSuccess\<close> nor \<open>onError\<close> is called and no request is issued. With the key
  configured, every run calls \<open>onSuccess\<close>, so every other failure path emits a list.
\<close>

theorem fetchPlacePredictions_no_key:
  assumes "2 \<le> length input"
  shows "(notConfigured (VITE_GOOGLE_PLACES_API_KEY env) \<longrightarrow>
            fetchPlacePredictions env hasOnError input = ([PConsoleError], Resolved)
          \<and> \<not> list_ex isCallback (fst (fetchPlacePredictions env hasOnError input)))
    \<and> (\<not> notConfigured (VITE_GOOGLE_PLACES_API_KEY env) \<longrightarrow>
            onSuccessCalls (fst (fetchPlacePredictions env hasOnError input)) \<noteq> [])"
proof -
  have ne: "input \<noteq> []" "\<not> length input < 2"
    using assms by auto
  show ?thesis
    using ne
    by (auto simp: fetchPlacePredictions_def placesTry_def notConfigured_def
        split: fetch_result.splits sum.splits places_data.splits option.splits)
qed

theorem fetchPlacePredictions_no_key_witness:
  "2 \<le> length (lit ''As'')
   \<and> notConfigured (VITE_GOOGLE_PLACES_API_KEY placesNoKeyEnv)
   \<and> fetchPlacePredictions placesNoKeyEnv True (lit ''As'') = ([PConsoleError], Resolved)
   \<and> \<not> notConfigured (VITE_GOOGLE_PLACES_API_KEY placesDownEnv)
   \<and> onSuccessCalls (fst (fetchPlacePredictions placesDownEnv True (lit ''As''))) \<noteq> []"
proof -
  have n: "notConfigured (VITE_GOOGLE_PLACES_API_KEY placesNoKeyEnv)"
    by (simp add: notConfigured_def placesNoKeyEnv_def)
  have c: "\<not> notConfigured (VITE_GOOGLE_PLACES_API_KEY placesDownEnv)"
    using key_k by (simp add: notConfigured_def placesDownEnv_def)
  from fetchPlacePredictions_no_key [OF length_As, of placesNoKeyEnv True] n
  have a: "fetchPlacePredictions placesNoKeyEnv True (lit ''As'') = ([PConsoleError], Resolved)"
    by blast
  from fetchPlacePredictions_no_key [OF length_As, of placesDownEnv True] c
  have b: "onSuccessCalls (fst (fetchPlacePredictions placesDownEnv True (lit ''As''))) \<noteq> []"
    by blast
  from length_As n a c b show ?thesis by simp
qed

section \<open>Properties of \<open>fetchWeatherData\<close>\<close>

lemma onWeatherDataCalls_append:
  "onWeatherDataCalls (xs @ ys) = onWeatherDataCalls xs @ onWeatherDataCalls ys"
  by (induction xs rule: onWeatherDataCalls.induct) simp_all

lemma onForecastDataCalls_append:
  "onForecastDataCalls (xs @ ys) = onForecastDataCalls xs @ onForecastDataCalls ys"
  by (induction xs rule: onForecastDataCalls.induct) simp_all

lemma onErrorCalls_append:
  "onErrorCalls (xs @ ys) = onErrorCalls xs @ onErrorCalls ys"
  by (induction xs rule: onErrorCalls.induct) simp_all

lemma storeSets_append:
  "storeSets (xs @ ys) = storeSets xs @ storeSets ys"
  by (induction xs rule: storeSets.induct) simp_all

text \<open>
  Claim C4. With the API key configured and the geocoding request answered 2xx with
  an empty list, \<open>fetchWeatherData\<close> calls \<open>onWeatherData(null)\<close> and
  \<open>onForecastData(null)\<close>, reports the error \<open>Location not found\<close> through
  \<open>onError\<close>, and issues neither the current-conditions nor the forecast request.
\<close>

theorem fetchWeatherData_empty_geocode:
  assumes "VITE_OPENWEATHER_API_KEY env = Some apiKey" and "apiKey \<noteq> []"
    and "wellFormed cityName"
    and "geoFetch env cityName apiKey = Response status (Inr (GeoArray []))"
    and "ok status"
  shows "fetchWeatherData env cb cityName sc lng =
      ([WConsoleLog, WFetchGeo cityName apiKey, WConsoleError]
         @ (if hasOnWeatherData cb then [WOnWeatherData None] else [])
         @ (if hasOnForecastData cb then [WOnForecastData None] else [])
         @ (if hasOnErrorCb cb then [WOnError (Error (lit ''Location not found''))] else []),
       Resolved)
    \<and> \<not> list_ex isWeatherFetch (fst (fetchWeatherData env cb cityName sc lng))
    \<and> storeSets (fst (fetchWeatherData env cb cityName sc lng)) = []
    \<and> (hasOnWeatherData cb \<longrightarrow>
          onWeatherDataCalls (fst (fetchWeatherData env cb cityName sc lng)) = [None])
    \<and> (hasOnForecastData cb \<longrightarrow>
          onForecastDataCalls (fst (fetchWeatherData env cb cityName sc lng)) = [None])
    \<and> (hasOnErrorCb cb \<longrightarrow>
          onErrorCalls (fst (fetchWeatherData env cb cityName sc lng))
            = [Error (lit ''Location not found'')])"
  using assms by (simp add: fetchWeatherData_def weatherTry_def)

lemma wellFormed_Astana: "wellFormed (lit ''Astana'')"
  by (simp add: lit_def isHighSurrogate_def isLowSurrogate_def)

theorem fetchWeatherData_empty_geocode_witness:
  "fetchWeatherData emptyGeocodeEnv allCallbacks (lit ''Astana'') (lit ''Celsius'') (lit ''en'') =
     ([WConsoleLog, WFetchGeo (lit ''Astana'') (lit ''key''), WConsoleError,
       WOnWeatherData None, WOnForecastData None,
       WOnError (Error (lit ''Location not found''))],
      Resolved)"
proof -
  have "VITE_OPENWEATHER_API_KEY emptyGeocodeEnv = Some (lit ''key'')" "lit ''key'' \<noteq> []"
    "geoFetch emptyGeocodeEnv (lit ''Astana'') (lit ''key'') = Response 200 (Inr (GeoArray []))"
    "ok 200"
    by (simp_all add: emptyGeocodeEnv_def lit_def ok_def)
  from fetchWeatherData_empty_geocode [OF this(1,2) wellFormed_Astana this(3,4),
      of allCallbacks "lit ''Celsius''" "lit ''en''"]
  show ?thesis
    by (simp add: allCallbacks_def)
qed

text \<open>
  Claim C1, as stated, fails: after a non-2xx forecast response the last value
  \<open>onWeatherData\<close> observes is \<open>null\<close>, not the fetched data. The run below has the
  geocoder and the current-conditions endpoint answer 200 (data \<open>7\<close>) and the
  forecast endpoint answer 503.
\<close>

theorem fetchWeatherData_forecast_failure_counterexample:
  "onWeatherDataCalls (fst (fetchWeatherData forecastDownEnv allCallbacks
       (lit ''Astana'') (lit ''Celsius'') (lit ''en''))) = [Some 7, None]
   \<and> last (onWeatherDataCalls (fst (fetchWeatherData forecastDownEnv allCallbacks
       (lit ''Astana'') (lit ''Celsius'') (lit ''en'')))) \<noteq> Some 7"
  using wellFormed_Astana
  by (simp add: fetchWeatherData_def weatherTry_def weatherStep_def forecastStep_def
      forecastDownEnv_def allCallbacks_def ok_def)
    (simp add: lit_def)

text \<open>
  Claim C1, amended. When the geocode and current-conditions steps succeed (the
  store write included) and the forecast request is answered non-2xx, the fetched
  current conditions are delivered to \<open>onWeatherData\<close> and written to instance storage
  under \<open>currentWeather\<close>, and no later write undoes that; the \<open>catch\<close> block then
  calls \<open>onWeatherData(null)\<close>, so the last value \<open>onWeatherData\<close> observes is
  \<open>null\<close>. \<open>onForecastData\<close> receives \<open>null\<close> only, and \<open>onError\<close> the
  \<open>Forecast HTTP\<close> error.
\<close>

theorem fetchWeatherData_forecast_failure:
  assumes "VITE_OPENWEATHER_API_KEY env = Some apiKey" and "apiKey \<noteq> []"
    and "wellFormed cityName"
    and "geoFetch env cityName apiKey = Response gstatus (Inr (GeoArray (Some entry # rest)))"
    and "ok gstatus"
    and "req = \<lparr>req_lat = lat entry, req_lon = lon entry, appid = apiKey,
                units = (if sc = lit ''Fahrenheit'' then lit ''imperial'' else lit ''metric''),
                lang = lng\<rparr>"
    and "weatherFetch env req = Response wstatus (Inr data)" and "ok wstatus"
    and "instanceSet env (lit ''currentWeather'') data = Inr stored"
    and "forecastFetch env req = Response fstatus body" and "\<not> ok fstatus"
  shows "onWeatherDataCalls (fst (fetchWeatherData env cb cityName sc lng))
           = (if hasOnWeatherData cb then [Some data, None] else [])
    \<and> onForecastDataCalls (fst (fetchWeatherData env cb cityName sc lng))
           = (if hasOnForecastData cb then [None] else [])
    \<and> onErrorCalls (fst (fetchWeatherData env cb cityName sc lng))
           = (if hasOnErrorCb cb
              then [Error (lit ''Forecast HTTP '' @ numberToString (int fstatus))] else [])
    \<and> storeSets (fst (fetchWeatherData env cb cityName sc lng))
           = [(lit ''currentWeather'', data)]
    \<and> snd (fetchWeatherData env cb cityName sc lng) = Resolved"
proof -
  have fc: "forecastStep env cb req =
      ([WConsoleLog, WFetchForecast req],
       Inl (Error (lit ''Forecast HTTP '' @ numberToString (int fstatus))))"
    using assms(10,11) by (simp add: forecastStep_def)
  have ws: "weatherStep env cb req =
      ([WConsoleLog, WFetchWeather req, WConsoleLog]
         @ (if hasOnWeatherData cb then [WOnWeatherData (Some data)] else [])
         @ [WStoreSet (lit ''currentWeather'') data, WConsoleLog, WConsoleLog,
            WFetchForecast req],
       Inl (Error (lit ''Forecast HTTP '' @ numberToString (int fstatus))))"
    using assms(7,8,9) fc by (simp add: weatherStep_def)
  have wt: "weatherTry env cb cityName sc lng =
      ([WConsoleLog, WFetchGeo cityName apiKey, WConsoleLog]
         @ [WConsoleLog, WFetchWeather req, WConsoleLog]
         @ (if hasOnWeatherData cb then [WOnWeatherData (Some data)] else [])
         @ [WStoreSet (lit ''currentWeather'') data, WConsoleLog, WConsoleLog,
            WFetchForecast req],
       Inl (Error (lit ''Forecast HTTP '' @ numberToString (int fstatus))))"
    using assms(1,2,3,4,5) ws unfolding assms(6)
    by (simp add: weatherTry_def)
  show ?thesis
    unfolding fetchWeatherData_def wt
    by (simp add: onWeatherDataCalls_append onForecastDataCalls_append
        onErrorCalls_append storeSets_append)
qed

theorem fetchWeatherData_forecast_failure_witness:
  "onWeatherDataCalls (fst (fetchWeatherData forecastDownEnv allCallbacks
       (lit ''Astana'') (lit ''Celsius'') (lit ''en''))) = [Some 7, None]
   \<and> onForecastDataCalls (fst (fetchWeatherData forecastDownEnv allCallbacks
       (lit ''Astana'') (lit ''Celsius'') (lit ''en''))) = [None]
   \<and> onErrorCalls (fst (fetchWeatherData forecastDownEnv allCallbacks
       (lit ''Astana'') (lit ''Celsius'') (lit ''en'')))
       = [Error (lit ''Forecast HTTP '' @ numberToString 503)]
   \<and> storeSets (fst (fetchWeatherData forecastDownEnv allCallbacks
       (lit ''Astana'') (lit ''Celsius'') (lit ''en''))) = [(lit ''currentWeather'', 7)]"
proof -
  let ?req = "\<lparr>req_lat = lat \<lparr>lat = 51, lon = 71\<rparr>, req_lon = lon \<lparr>lat = 51, lon = 71\<rparr>,
      appid = lit ''key'',
      units = (if lit ''Celsius'' = lit ''Fahrenheit'' then lit ''imperial'' else lit ''metric''),
      lang = lit ''en''\<rparr>"
  have h: "VITE_OPENWEATHER_API_KEY forecastDownEnv = Some (lit ''key'')" "lit ''key'' \<noteq> []"
    "geoFetch forecastDownEnv (lit ''Astana'') (lit ''key'')
       = Response 200 (Inr (GeoArray (Some \<lparr>lat = 51, lon = 71\<rparr> # [])))"
    "ok 200"
    "weatherFetch forecastDownEnv ?req = Response 200 (Inr 7)"
    "instanceSet forecastDownEnv (lit ''currentWeather'') 7 = Inr True"
    "forecastFetch forecastDownEnv ?req = Response 503 (Inr 8)"
    "\<not> ok 503"
    by (simp_all add: forecastDownEnv_def lit_def ok_def)
  from fetchWeatherData_forecast_failure
    [OF h(1,2) wellFormed_Astana h(3,4) refl h(5) h(4) h(6) h(7) h(8), of allCallbacks]
  show ?thesis
    by (simp add: allCallbacks_def)
qed

section \<open>Properties of the \<open>Render\<close> view\<close>

lemma registry_keys:
  "map fst VIEW_REGISTRY =
     map lit [''flamingo'', ''sky'', ''urban'', ''watermelon'', ''neapolitan'', ''meadow'',
       ''forest'']"
  by (simp add: VIEW_REGISTRY_def)

text \<open>
  Claim C2, as stated, fails: a stored \<open>viewConfig\<close> whose \<open>selectedView\<close> is
  \<open>ocean\<close>, which is not a registry key, does not give the placeholder; \<open>Render\<close>
  returns an element whose type is \<open>undefined\<close>.
\<close>

theorem Render_unknown_theme_counterexample:
  "Render (Some \<lparr>selectedView = lit ''ocean''\<rparr>) = Element UndefinedType
   \<and> Render (Some \<lparr>selectedView = lit ''ocean''\<rparr>) \<noteq> Placeholder"
  by (simp add: Render_def registryLookup_def VIEW_REGISTRY_def objectPrototypeKeys_def)
    (simp add: lit_def)

text \<open>
  Claim C2, amended. \<open>Render\<close> returns the placeholder exactly when the
  \<open>viewConfig\<close> state is absent (undefined or null). For a \<open>viewConfig\<close> whose
  \<open>selectedView\<close> is one of the seven registry keys it returns that theme's
  component. For any other \<open>selectedView\<close> (which the \<open>ViewId\<close> type excludes) it
  returns no placeholder: the element's type is the unchecked result of the lookup,
  \<open>undefined\<close> unless the name is inherited from \<open>Object.prototype\<close>.
\<close>

theorem Render_placeholder_iff:
  "(Render cfg = Placeholder \<longleftrightarrow> cfg = None)
   \<and> (\<forall>c comp. cfg = Some c \<and> (selectedView c, comp) \<in> set VIEW_REGISTRY
        \<longrightarrow> Render cfg = Element (Theme comp))
   \<and> (\<forall>c. cfg = Some c \<and> selectedView c \<notin> set (map fst VIEW_REGISTRY)
          \<and> selectedView c \<notin> set objectPrototypeKeys
        \<longrightarrow> Render cfg = Element UndefinedType)
   \<and> length VIEW_REGISTRY = 7 \<and> distinct (map fst VIEW_REGISTRY)"
proof (intro conjI allI impI)
  show "Render cfg = Placeholder \<longleftrightarrow> cfg = None"
    by (simp add: Render_def split: option.splits)
next
  show "length VIEW_REGISTRY = 7"
    by (simp add: VIEW_REGISTRY_def)
next
  show d: "distinct (map fst VIEW_REGISTRY)"
    by (simp add: VIEW_REGISTRY_def) (simp add: lit_def)
  fix c comp
  assume "cfg = Some c \<and> (selectedView c, comp) \<in> set VIEW_REGISTRY"
  then have "cfg = Some c" "map_of VIEW_REGISTRY (selectedView c) = Some comp"
    using d by (simp_all add: map_of_eq_Some_iff)
  then show "Render cfg = Element (Theme comp)"
    by (simp add: Render_def registryLookup_def)
next
  fix c
  assume "cfg = Some c \<and> selectedView c \<notin> set (map fst VIEW_REGISTRY)
          \<and> selectedView c \<notin> set objectPrototypeKeys"
  then have "cfg = Some c" "map_of VIEW_REGISTRY (selectedView c) = None"
    "selectedView c \<notin> set objectPrototypeKeys"
    by (simp_all add: map_of_eq_None_iff)
  then show "Render cfg = Element UndefinedType"
    by (simp add: Render_def registryLookup_def)
qed

theorem Render_placeholder_iff_witness:
  "Render (Some \<lparr>selectedView = lit ''sky''\<rparr>) = Element (Theme Sky)
   \<and> Render None = Placeholder
   \<and> Render (Some \<lparr>selectedView = lit ''ocean''\<rparr>) = Element UndefinedType"
proof -
  have "(selectedView \<lparr>selectedView = lit ''sky''\<rparr>, Sky) \<in> set VIEW_REGISTRY"
    by (simp add: VIEW_REGISTRY_def)
  with Render_placeholder_iff [of "Some \<lparr>selectedView = lit ''sky''\<rparr>"]
  have a: "Render (Some \<lparr>selectedView = lit ''sky''\<rparr>) = Element (Theme Sky)"
    by blast
  have b: "Render None = Placeholder"
    using Render_placeholder_iff [of None] by simp
  have "selectedView \<lparr>selectedView = lit ''ocean''\<rparr> \<notin> set (map fst VIEW_REGISTRY)"
    "selectedView \<lparr>selectedView = lit ''ocean''\<rparr> \<notin> set objectPrototypeKeys"
    by (simp_all add: VIEW_REGISTRY_def objectPrototypeKeys_def lit_def)
  with Render_placeholder_iff [of "Some \<lparr>selectedView = lit ''ocean''\<rparr>"]
  have c: "Render (Some \<lparr>selectedView = lit ''ocean''\<rparr>) = Element UndefinedType"
    by blast
  from a b c show ?thesis by simp
qed

section \<open>Properties of the polling worker\<close>

text \<open>
  Claim C5 against the code: the start of the worker fetches and stores both the
  current conditions and the forecast, but the interval callback calls
  \<open>getCurrentWeather\<close> only. In surroundings where every request succeeds, the first
  tick refetches and stores the current conditions and touches the forecast neither
  by a request nor by a write; this holds for every tick in all surroundings.
\<close>

theorem intervalCallback_skips_forecast:
  "openWeatherMapWorker healthyWorkerEnv =
     [KLog, KLog, KFetchCurrent, KDeviceSet (lit ''currentWeather'') 10, KLog,
      KFetchForecast, KDeviceSet (lit ''weatherForecast'') 20, KLog, KLog, KLog]
   \<and> intervalCallback healthyWorkerEnv 1 =
     [KLog, KFetchCurrent, KDeviceSet (lit ''currentWeather'') 11, KLog]
   \<and> \<not> list_ex isForecastEvent (intervalCallback healthyWorkerEnv 1)
   \<and> (\<forall>env :: nat worker_env. \<forall>n. \<not> list_ex isForecastEvent (intervalCallback env n))
   \<and> filter isForecastEvent (workerRun healthyWorkerEnv 2) =
       [KFetchForecast, KDeviceSet (lit ''weatherForecast'') 20]
   \<and> weatherIntervalMs = 1800000"
proof -
  have ne: "lit ''currentWeather'' \<noteq> lit ''weatherForecast''"
    by (simp add: lit_def)
  have all: "\<not> list_ex isForecastEvent (intervalCallback env n)" for env :: "nat worker_env" and n
    using ne by (simp add: intervalCallback_def getCurrentWeather_def
        split: fetch_result.splits sum.splits)
  have start: "openWeatherMapWorker healthyWorkerEnv =
     [KLog, KLog, KFetchCurrent, KDeviceSet (lit ''currentWeather'') 10, KLog,
      KFetchForecast, KDeviceSet (lit ''weatherForecast'') 20, KLog, KLog, KLog]"
    by (simp add: openWeatherMapWorker_def getCurrentWeather_def getForecast_def
        healthyWorkerEnv_def)
  have tick: "intervalCallback healthyWorkerEnv 1 =
     [KLog, KFetchCurrent, KDeviceSet (lit ''currentWeather'') 11, KLog]"
    by (simp add: intervalCallback_def getCurrentWeather_def healthyWorkerEnv_def)
  have tick2: "intervalCallback healthyWorkerEnv 2 =
     [KLog, KFetchCurrent, KDeviceSet (lit ''currentWeather'') 12, KLog]"
    by (simp add: intervalCallback_def getCurrentWeather_def healthyWorkerEnv_def)
  have ticks: "[1..<Suc 2] = [1, 2]"
    by (simp add: upt_rec)
  have run: "filter isForecastEvent (workerRun healthyWorkerEnv 2) =
       [KFetchForecast, KDeviceSet (lit ''weatherForecast'') 20]"
    unfolding workerRun_def ticks using start tick tick2 ne by simp
  show ?thesis
    using all start tick ne run by (simp add: weatherIntervalMs_def)
qed

section \<open>Properties of the daily aggregation\<close>






lemma distinct_daysInOrder: "distinct (daysInOrder xs)"
  by (simp add: daysInOrder_def)

















section \<open>Properties of \<open>handleSave\<close>\<close>

lemma store_keys_distinct:
  "lit ''viewConfig'' \<noteq> lit ''dateTimeSettings''"
  "lit ''viewConfig'' \<noteq> lit ''scaleSettings''"
  "lit ''viewConfig'' \<noteq> lit ''languageSettings''"
  "lit ''dateTimeSettings'' \<noteq> lit ''scaleSettings''"
  "lit ''dateTimeSettings'' \<noteq> lit ''languageSettings''"
  "lit ''scaleSettings'' \<noteq> lit ''languageSettings''"
  by (simp_all add: lit_def)

lemma formatted_submitting:
  "formatted env (s\<lparr>loading := b, error := e\<rparr>) = formatted env s"
  by (simp add: formatted_def split: sum.splits)

lemma savedValue_submitting:
  "savedValue (s\<lparr>loading := b, error := e\<rparr>) fd ft key = savedValue s fd ft key"
  by (simp add: savedValue_def dateTimeValue_def)

lemma handleSave_loading: "loading (fst (handleSave env s store)) = False"
  by (simp add: handleSave_def Let_def split: prod.splits sum.splits)

lemma saveTry_view_fails:
  assumes "writeFails env (lit ''viewConfig'')"
  shows "fst (saveTry env s store) = store"
    and "fst (snd (saveTry env s store)) = [lit ''viewConfig'']"
  using assms
  by (auto simp: saveTry_def instanceStoreSet_def writeFails_def split: sum.splits)

lemma saveTry_format_throws:
  assumes "setResult env (lit ''viewConfig'') = Inr True" and "formatted env s = Inl e"
  shows "fst (saveTry env s store) = store(lit ''viewConfig'' \<mapsto> StoredViewConfig (config s))"
    and "fst (snd (saveTry env s store)) = [lit ''viewConfig'']"
  using assms by (simp_all add: saveTry_def instanceStoreSet_def)

lemma saveTry_result:
  assumes f: "formatted env s = Inr (fd, ft)"
  shows "fst (snd (saveTry env s store)) = uptoFirstFailure (writeFails env) saveOrder
    \<and> (\<forall>key. fst (saveTry env s store) key =
          (if key \<in> set (uptoFirstFailure (writeFails env) saveOrder)
              \<and> setResult env key = Inr True
           then Some (savedValue s fd ft key) else store key))"
proof -
  note defs = saveTry_def instanceStoreSet_def writeFails_def saveOrder_def savedValue_def
  note d = store_keys_distinct store_keys_distinct [symmetric]
  show ?thesis
  proof (cases "setResult env (lit ''viewConfig'')")
    case (Inl e1)
    then show ?thesis by (simp add: defs)
  next
    case r1: (Inr b1)
    show ?thesis
    proof (cases b1)
      case False
      with r1 show ?thesis by (simp add: defs)
    next
      case True
      note r1 = r1 [unfolded True]
      show ?thesis
      proof (cases "setResult env (lit ''dateTimeSettings'')")
        case (Inl e2)
        with r1 f d show ?thesis by (auto simp: defs)
      next
        case r2: (Inr b2)
        show ?thesis
        proof (cases "setResult env (lit ''scaleSettings'')")
          case (Inl e3)
          with r1 r2 f d show ?thesis by (auto simp: defs)
        next
          case r3: (Inr b3)
          show ?thesis
          proof (cases "setResult env (lit ''languageSettings'')")
            case (Inl e4)
            with r1 r2 r3 f d show ?thesis by (auto simp: defs)
          next
            case (Inr b4)
            with r1 r2 r3 f d show ?thesis by (auto simp: defs)
          qed
        qed
      qed
    qed
  qed
qed

lemma saveTry_keys:
  assumes "formatted env s = Inr (fd, ft)"
  shows "fst (snd (saveTry env s store)) = uptoFirstFailure (writeFails env) saveOrder"
  using saveTry_result [OF assms] by blast

lemma saveTry_store:
  assumes "formatted env s = Inr (fd, ft)"
  shows "fst (saveTry env s store) key =
     (if key \<in> set (uptoFirstFailure (writeFails env) saveOrder) \<and> setResult env key = Inr True
      then Some (savedValue s fd ft key) else store key)"
  using saveTry_result [OF assms] by blast

lemma handleSave_parts:
  "fst (snd (handleSave env s store)) = fst (saveTry env (s\<lparr>loading := True, error := None\<rparr>) store)"
  "snd (snd (handleSave env s store)) = fst (snd (saveTry env (s\<lparr>loading := True, error := None\<rparr>) store))"
  by (simp_all add: handleSave_def Let_def split: prod.splits sum.splits)

text \<open>
  Claim C9. \<open>handleSave\<close> calls \<open>set\<close> for \<open>viewConfig\<close>, \<open>dateTimeSettings\<close>,
  \<open>scaleSettings\<close>, \<open>languageSettings\<close> in this order and stops at the first write
  that fails (a rejection, or for \<open>viewConfig\<close> also the result \<open>false\<close>). It is not
  atomic: afterwards every key before the failing one holds its new value (where the
  store accepted the write), the failing key and every later key hold what they held
  before, and nothing is rolled back. The loading flag is cleared in every outcome.
\<close>

theorem handleSave_not_atomic:
  "loading (fst (handleSave env s store)) = False
   \<and> (\<forall>fd ft. formatted env s = Inr (fd, ft) \<longrightarrow>
        snd (snd (handleSave env s store)) = uptoFirstFailure (writeFails env) saveOrder
      \<and> (\<forall>key. fst (snd (handleSave env s store)) key =
            (if key \<in> set (uptoFirstFailure (writeFails env) saveOrder)
                \<and> setResult env key = Inr True
             then Some (savedValue s fd ft key) else store key)))
   \<and> (writeFails env (lit ''viewConfig'') \<longrightarrow>
        snd (snd (handleSave env s store)) = [lit ''viewConfig'']
      \<and> fst (snd (handleSave env s store)) = store)
   \<and> (\<forall>e. setResult env (lit ''viewConfig'') = Inr True \<and> formatted env s = Inl e \<longrightarrow>
        snd (snd (handleSave env s store)) = [lit ''viewConfig'']
      \<and> fst (snd (handleSave env s store)) =
          store(lit ''viewConfig'' \<mapsto> StoredViewConfig (config s)))"
proof (intro conjI allI impI)
  show "loading (fst (handleSave env s store)) = False"
    by (rule handleSave_loading)
next
  fix fd ft
  assume "formatted env s = Inr (fd, ft)"
  then have f: "formatted env (s\<lparr>loading := True, error := None\<rparr>) = Inr (fd, ft)"
    by (simp add: formatted_submitting)
  show "snd (snd (handleSave env s store)) = uptoFirstFailure (writeFails env) saveOrder"
    unfolding handleSave_parts by (rule saveTry_keys [OF f])
  fix key
  show "fst (snd (handleSave env s store)) key =
            (if key \<in> set (uptoFirstFailure (writeFails env) saveOrder)
                \<and> setResult env key = Inr True
             then Some (savedValue s fd ft key) else store key)"
    unfolding handleSave_parts saveTry_store [OF f] savedValue_submitting ..
next
  assume w: "writeFails env (lit ''viewConfig'')"
  show "snd (snd (handleSave env s store)) = [lit ''viewConfig'']"
    unfolding handleSave_parts by (rule saveTry_view_fails(2) [OF w])
  show "fst (snd (handleSave env s store)) = store"
    unfolding handleSave_parts by (rule saveTry_view_fails(1) [OF w])
next
  fix e
  assume a: "setResult env (lit ''viewConfig'') = Inr True \<and> formatted env s = Inl e"
  then have f: "formatted env (s\<lparr>loading := True, error := None\<rparr>) = Inl e"
    by (simp add: formatted_submitting)
  from a have v: "setResult env (lit ''viewConfig'') = Inr True" ..
  show "snd (snd (handleSave env s store)) = [lit ''viewConfig'']"
    unfolding handleSave_parts by (rule saveTry_format_throws(2) [OF v f])
  show "fst (snd (handleSave env s store)) =
          store(lit ''viewConfig'' \<mapsto> StoredViewConfig (config s))"
    unfolding handleSave_parts using saveTry_format_throws(1) [OF v f] by simp
qed

theorem handleSave_not_atomic_witness:
  "formatted scaleRejectedEnv formState = Inr (lit ''Monday, June 3'', lit ''09:30 AM'')
   \<and> snd (snd (handleSave scaleRejectedEnv formState Map.empty)) =
       [lit ''viewConfig'', lit ''dateTimeSettings'', lit ''scaleSettings'']
   \<and> fst (snd (handleSave scaleRejectedEnv formState Map.empty)) (lit ''viewConfig'') =
       Some (StoredViewConfig \<lparr>selectedView = lit ''sky''\<rparr>)
   \<and> fst (snd (handleSave scaleRejectedEnv formState Map.empty)) (lit ''scaleSettings'') = None
   \<and> fst (snd (handleSave scaleRejectedEnv formState Map.empty)) (lit ''languageSettings'') = None
   \<and> loading (fst (handleSave scaleRejectedEnv formState Map.empty)) = False
   \<and> writeFails viewRefusedEnv (lit ''viewConfig'')
   \<and> snd (snd (handleSave viewRefusedEnv formState Map.empty)) = [lit ''viewConfig'']
   \<and> fst (snd (handleSave viewRefusedEnv formState Map.empty)) = Map.empty
   \<and> snd (snd (handleSave badPatternEnv (formState\<lparr>dateTimeOption := lit ''Custom''\<rparr>) Map.empty))
       = [lit ''viewConfig'']
   \<and> fst (snd (handleSave badPatternEnv (formState\<lparr>dateTimeOption := lit ''Custom''\<rparr>) Map.empty))
       = [lit ''viewConfig'' \<mapsto> StoredViewConfig \<lparr>selectedView = lit ''sky''\<rparr>]"
proof -
  have f: "formatted scaleRejectedEnv formState = Inr (lit ''Monday, June 3'', lit ''09:30 AM'')"
    by (simp add: formatted_def scaleRejectedEnv_def formState_def)
  have keys: "uptoFirstFailure (writeFails scaleRejectedEnv) saveOrder =
      [lit ''viewConfig'', lit ''dateTimeSettings'', lit ''scaleSettings'']"
    using store_keys_distinct
    by (simp add: saveOrder_def writeFails_def scaleRejectedEnv_def)
  have res: "setResult scaleRejectedEnv (lit ''viewConfig'') = Inr True"
    "setResult scaleRejectedEnv (lit ''scaleSettings'') \<noteq> Inr True"
    using store_keys_distinct by (simp_all add: scaleRejectedEnv_def)
  have val: "savedValue formState (lit ''Monday, June 3'') (lit ''09:30 AM'') (lit ''viewConfig'')
      = StoredViewConfig \<lparr>selectedView = lit ''sky''\<rparr>"
    by (simp add: savedValue_def formState_def)
  from handleSave_not_atomic [of scaleRejectedEnv formState Map.empty] f
  have a: "snd (snd (handleSave scaleRejectedEnv formState Map.empty)) =
        uptoFirstFailure (writeFails scaleRejectedEnv) saveOrder"
    and b: "\<And>key. fst (snd (handleSave scaleRejectedEnv formState Map.empty)) key =
            (if key \<in> set (uptoFirstFailure (writeFails scaleRejectedEnv) saveOrder)
                \<and> setResult scaleRejectedEnv key = Inr True
             then Some (savedValue formState (lit ''Monday, June 3'') (lit ''09:30 AM'') key)
             else Map.empty key)"
    and c: "loading (fst (handleSave scaleRejectedEnv formState Map.empty)) = False"
    by blast+
  have first: "snd (snd (handleSave scaleRejectedEnv formState Map.empty)) =
       [lit ''viewConfig'', lit ''dateTimeSettings'', lit ''scaleSettings'']
    \<and> fst (snd (handleSave scaleRejectedEnv formState Map.empty)) (lit ''viewConfig'') =
       Some (StoredViewConfig \<lparr>selectedView = lit ''sky''\<rparr>)
    \<and> fst (snd (handleSave scaleRejectedEnv formState Map.empty)) (lit ''scaleSettings'') = None
    \<and> fst (snd (handleSave scaleRejectedEnv formState Map.empty)) (lit ''languageSettings'') = None
    \<and> loading (fst (handleSave scaleRejectedEnv formState Map.empty)) = False"
    using a c store_keys_distinct res val
    by (simp add: b keys)
  have w: "writeFails viewRefusedEnv (lit ''viewConfig'')"
    by (simp add: writeFails_def viewRefusedEnv_def)
  from handleSave_not_atomic [of viewRefusedEnv formState Map.empty] w
  have second: "snd (snd (handleSave viewRefusedEnv formState Map.empty)) = [lit ''viewConfig'']
    \<and> fst (snd (handleSave viewRefusedEnv formState Map.empty)) = Map.empty"
    by blast
  let ?custom = "formState\<lparr>dateTimeOption := lit ''Custom''\<rparr>"
  have ne: "lit ''Custom'' \<noteq> lit ''Default''"
    by (simp add: lit_def)
  have t: "setResult badPatternEnv (lit ''viewConfig'') = Inr True
      \<and> formatted badPatternEnv ?custom = Inl (Error (lit ''Invalid time value''))"
    using ne by (simp add: formatted_def badPatternEnv_def formState_def)
  have cfg: "config ?custom = \<lparr>selectedView = lit ''sky''\<rparr>"
    by (simp add: formState_def)
  from handleSave_not_atomic [of badPatternEnv ?custom Map.empty] t
  have third: "snd (snd (handleSave badPatternEnv ?custom Map.empty)) = [lit ''viewConfig'']
    \<and> fst (snd (handleSave badPatternEnv ?custom Map.empty)) =
        [lit ''viewConfig'' \<mapsto> StoredViewConfig (config ?custom)]"
    by blast
  from f first w second third show ?thesis
    unfolding cfg by simp
qed

end
